theory Spec2Isabelle
  imports Main "HOL-Library.Word"
begin

section \<open>Data model\<close>

text \<open>
  The module \<^verbatim>\<open>pandasai/smart_dataframe/__init__.py\<close> wraps a pandas, modin or polars
  dataframe. A dataframe is modelled by the class of the Python object and its labelled,
  typed columns. The strings in cells and the file paths are modelled by \<open>string\<close>, one
  \<open>char\<close> per code point (code points below 256).
\<close>

text \<open>
  A cell holds a string, an integer, a missing value, or a reference to a mutable Python
  object (a list, say) that lives outside the frame: an object column stores references,
  not the objects.
\<close>

datatype cell = StrCell string | IntCell int | NullCell | ObjCell nat

datatype dtype = ObjectDtype | Utf8 | OtherDtype

text \<open>
  A column label is any hashable Python value: a \<^verbatim>\<open>str\<close>, given by its code points, since
  \<^verbatim>\<open>column_hash\<close> encodes it, or something else, such as the integer labels of
  \<^verbatim>\<open>pd.DataFrame([[1, 2]])\<close>.
\<close>

type_synonym pystr = "nat list"

datatype label = StrLabel pystr | IntLabel int

record column =
  col_name :: label
  col_dtype :: dtype
  col_cells :: "cell list"

text \<open>The concrete class of an object that reaches \<^verbatim>\<open>_df\<close>: one of the three dataframe
  classes, or any other Python object.\<close>

datatype backend = PandasDataFrame | ModinDataFrame | PolarsDataFrame | OtherObject

record table =
  backend :: backend
  columns :: "column list"

text \<open>The engine tags \<^verbatim>\<open>"pandas"\<close>, \<^verbatim>\<open>"modin"\<close>, \<^verbatim>\<open>"polars"\<close>.\<close>

datatype engine = Pandas | Modin | Polars

text \<open>\<^verbatim>\<open>pandasai.pandas\<close> is the process-wide eager module: pandas, or modin after
  \<^verbatim>\<open>pandasai.set_engine('modin')\<close>.\<close>

datatype pd_module = PandasModule | ModinModule

text \<open>
  Every \<^verbatim>\<open>ValueError\<close> the module raises, told apart by its message, and the built-in
  exceptions of the operations it performs.
  \<^item> \<open>InvalidFileFormat\<close>: \<^verbatim>\<open>"Invalid file format."\<close>
  \<^item> \<open>UnconvertibleInput\<close>: \<^verbatim>\<open>"Invalid input data. We cannot convert it to a dataframe."\<close>
  \<^item> \<open>UnrecognizedEngine\<close>: \<^verbatim>\<open>"Invalid input data. Must be a Pandas, Modin or Polars dataframe."\<close>
  \<^item> \<open>EngineMismatch\<close>: \<^verbatim>\<open>"The provided dataframe is a ... dataframe, but the current pandasai engine is ..."\<close>
  \<^item> \<open>UnsupportedEngine\<close>: \<^verbatim>\<open>"Unrecognized engine ... It must either be pandas, modin or polars."\<close>
  \<^item> \<open>ExternalError\<close>: an exception raised inside a collaborator (a file reader, the
    sheet importer, a connector).
  \<^item> \<open>OutOfBounds\<close>: the error polars raises for an index past the end of a Series.
\<close>

datatype error =
    InvalidFileFormat
  | UnconvertibleInput
  | UnrecognizedEngine
  | EngineMismatch
  | UnsupportedEngine
  | AttributeError
  | IndexError
  | TypeError
  | UnicodeEncodeError
  | OutOfBounds
  | ExternalError

subsection \<open>Objects and references\<close>

text \<open>
  Dataframes are mutable objects and \<^verbatim>\<open>_df\<close> holds a reference. The store is the list
  of all objects created so far; a reference is an index into it, and a new object is
  appended.
\<close>

type_synonym ref = nat

type_synonym heap = "table list"

definition heap_get :: "heap \<Rightarrow> ref \<Rightarrow> table option" where
  "heap_get h r = (if r < length h then Some (h ! r) else None)"

definition heap_set :: "heap \<Rightarrow> ref \<Rightarrow> table \<Rightarrow> heap" where
  "heap_set h r t = h[r := t]"

definition alloc :: "heap \<Rightarrow> table \<Rightarrow> heap \<times> ref" where
  "alloc h t = (h @ [t], length h)"

subsection \<open>The Python objects held in cells\<close>

text \<open>
  A second store holds the mutable objects that cells refer to (\<open>ObjCell i\<close> is the object
  at index \<open>i\<close>); a list stands for them. The module never reads or writes these objects,
  so its functions do not take this store; a caller can change an object in place between
  two calls. What a caller sees in a frame is each cell together with the object it
  refers to.
\<close>

datatype pyobj = ListObj "int list"

type_synonym objstore = "pyobj list"

definition obj_get :: "objstore \<Rightarrow> nat \<Rightarrow> pyobj option" where
  "obj_get os i = (if i < length os then Some (os ! i) else None)"

definition cell_view :: "objstore \<Rightarrow> cell \<Rightarrow> cell \<times> pyobj option" where
  "cell_view os c = (c, case c of ObjCell i \<Rightarrow> obj_get os i | _ \<Rightarrow> None)"

definition table_view :: "objstore \<Rightarrow> table \<Rightarrow> (label \<times> (cell \<times> pyobj option) list) list" where
  "table_view os t = map (\<lambda>c. (col_name c, map (cell_view os) (col_cells c))) (columns t)"

text \<open>The objects a frame refers to.\<close>

definition obj_refs :: "table \<Rightarrow> nat list" where
  "obj_refs t =
     concat (map (\<lambda>c. concat (map (\<lambda>v. case v of ObjCell i \<Rightarrow> [i] | _ \<Rightarrow> []) (col_cells c)))
               (columns t))"

subsection \<open>Connectors\<close>

text \<open>
  \<^verbatim>\<open>BaseConnector\<close> is an external collaborator. A connector is described by what its
  members return: \<^verbatim>\<open>execute()\<close> (\<open>None\<close> when it raises), \<^verbatim>\<open>head()\<close> (a dataframe or
  Python's \<^verbatim>\<open>None\<close>), \<^verbatim>\<open>column_hash\<close>, \<^verbatim>\<open>rows_count\<close> and \<^verbatim>\<open>columns_count\<close>.
\<close>

record connector =
  conn_config :: string
  conn_execute :: "table option"
  conn_head :: "table option"
  conn_column_hash :: string
  conn_rows_count :: nat
  conn_columns_count :: nat

subsection \<open>The environment: pandas, the readers and the helpers\<close>

datatype pydata = PyList "cell list list" | PyDict "(label \<times> cell list) list"

text \<open>
  Library functions the module calls. The eager readers and the \<^verbatim>\<open>pd.DataFrame\<close>
  constructor return the columns of the frame they build (\<open>None\<close> when they raise);
  the frame is an instance of the configured module's \<^verbatim>\<open>DataFrame\<close> class.
  \<open>sample\<close> is \<^verbatim>\<open>DataSampler(head).sample(n)\<close>; \<open>series_str\<close> is \<^verbatim>\<open>str()\<close> of a Series;
  \<open>to_csv\<close> is \<^verbatim>\<open>df.to_csv(index=False)\<close>; \<open>read_csv_buffer\<close> is \<^verbatim>\<open>pd.read_csv\<close> on a
  \<^verbatim>\<open>StringIO\<close>; \<open>sha256_hexdigest\<close> is \<^verbatim>\<open>hashlib.sha256(b).hexdigest()\<close> on bytes.
\<close>

record env =
  pd :: pd_module
  read_csv :: "string \<Rightarrow> column list option"
  read_parquet :: "string \<Rightarrow> column list option"
  read_excel :: "string \<Rightarrow> column list option"
  from_google_sheets :: "string \<Rightarrow> column list list option"
  DataFrame :: "pydata \<Rightarrow> column list option"
  sample :: "table \<Rightarrow> nat \<Rightarrow> table"
  series_str :: "column \<Rightarrow> string"
  to_csv :: "table \<Rightarrow> string"
  read_csv_buffer :: "string \<Rightarrow> column list option"
  sha256_hexdigest :: "8 word list \<Rightarrow> string"

definition frame_class :: "pd_module \<Rightarrow> backend" where
  "frame_class m = (case m of PandasModule \<Rightarrow> PandasDataFrame | ModinModule \<Rightarrow> ModinDataFrame)"

definition mk_frame :: "env \<Rightarrow> column list \<Rightarrow> table" where
  "mk_frame e cols = \<lparr>backend = frame_class (pd e), columns = cols\<rparr>"

text \<open>\<^verbatim>\<open>isinstance(x, pd.DataFrame)\<close>\<close>

definition isinstance_DataFrame :: "env \<Rightarrow> table \<Rightarrow> bool" where
  "isinstance_DataFrame e t = (backend t = frame_class (pd e))"

text \<open>
  Modelled from the spec: \<^verbatim>\<open>df_type\<close> of \<^verbatim>\<open>pandasai.helpers.df_info\<close> is not part of the
  sources. The specification's Engine Detector: it inspects the concrete backend type of
  the object and returns the matching engine tag, or nothing when the object is none of
  the three dataframe classes.
\<close>

definition df_type :: "table \<Rightarrow> engine option" where
  "df_type t =
     (case backend t of
        PandasDataFrame \<Rightarrow> Some Pandas
      | ModinDataFrame \<Rightarrow> Some Modin
      | PolarsDataFrame \<Rightarrow> Some Polars
      | OtherObject \<Rightarrow> None)"

section \<open>SmartDataframeCore\<close>

text \<open>The attributes \<^verbatim>\<open>_df\<close>, \<^verbatim>\<open>_df_loaded\<close>, \<^verbatim>\<open>_temporary_loaded\<close>, \<^verbatim>\<open>_connector\<close> and
  \<^verbatim>\<open>_engine\<close>, and their class-level defaults.\<close>

record core =
  df :: "ref option"
  df_loaded :: bool
  temporary_loaded :: bool
  connector :: "connector option"
  engine :: "engine option"

definition new_core :: core where
  "new_core = \<lparr>df = None, df_loaded = True, temporary_loaded = False,
                connector = None, engine = None\<rparr>"

definition has_connector :: "core \<Rightarrow> bool" where
  "has_connector s = (connector s \<noteq> None)"

text \<open>A Python value assigned to the \<^verbatim>\<open>dataframe\<close> property: \<^verbatim>\<open>None\<close>, a string, a list or
  dict, or a reference to any other object.\<close>

datatype pyval = PyNone | PyStr string | PyData pydata | PyObj ref

subsection \<open>\<^verbatim>\<open>_import_from_file\<close>\<close>

definition endswith :: "string \<Rightarrow> string \<Rightarrow> bool" where
  "endswith s suffix = (length suffix \<le> length s \<and> drop (length s - length suffix) s = suffix)"

definition startswith :: "string \<Rightarrow> string \<Rightarrow> bool" where
  "startswith s prefix = (take (length prefix) s = prefix)"

definition reader_result :: "env \<Rightarrow> column list option \<Rightarrow> error + table" where
  "reader_result e r = (case r of None \<Rightarrow> Inl ExternalError | Some cols \<Rightarrow> Inr (mk_frame e cols))"

definition import_from_file :: "env \<Rightarrow> string \<Rightarrow> error + table" where
  "import_from_file e file_path =
     (if endswith file_path ''.csv'' then reader_result e (read_csv e file_path)
      else if endswith file_path ''.parquet'' then reader_result e (read_parquet e file_path)
      else if endswith file_path ''.xlsx'' then reader_result e (read_excel e file_path)
      else if startswith file_path ''https://docs.google.com/spreadsheets/'' then
        (case from_google_sheets e file_path of
           None \<Rightarrow> Inl ExternalError
         | Some [] \<Rightarrow> Inl IndexError
         | Some (sheet # _) \<Rightarrow> Inr (mk_frame e sheet))
      else Inl InvalidFileFormat)"

subsection \<open>\<^verbatim>\<open>_load_engine\<close>\<close>

text \<open>The object \<^verbatim>\<open>_df\<close> refers to, if any.\<close>

definition owned :: "heap \<Rightarrow> core \<Rightarrow> table option" where
  "owned h s = (case df s of None \<Rightarrow> None | Some r \<Rightarrow> heap_get h r)"

definition load_engine :: "env \<Rightarrow> heap \<Rightarrow> core \<Rightarrow> error + core" where
  "load_engine e h s =
     (case (case owned h s of None \<Rightarrow> None | Some t \<Rightarrow> df_type t) of
        None \<Rightarrow> Inl UnrecognizedEngine
      | Some df_engine \<Rightarrow>
          (if df_engine \<noteq> Polars \<and> \<not> (case owned h s of None \<Rightarrow> False | Some t \<Rightarrow> isinstance_DataFrame e t)
           then Inl EngineMismatch
           else Inr (s\<lparr>engine := Some df_engine\<rparr>)))"

text \<open>The objects \<^verbatim>\<open>_load_engine\<close> lets through: a polars frame, or a frame of the
  configured module.\<close>

definition accepted :: "env \<Rightarrow> table \<Rightarrow> bool" where
  "accepted e t = (df_type t \<noteq> None \<and> (df_type t = Some Polars \<or> isinstance_DataFrame e t))"

subsection \<open>\<^verbatim>\<open>_validate_and_convert_dataframe\<close> and the \<^verbatim>\<open>dataframe\<close> setter\<close>

definition validate_and_convert_dataframe ::
  "env \<Rightarrow> heap \<Rightarrow> pyval \<Rightarrow> (error + ref option) \<times> heap" where
  "validate_and_convert_dataframe e h v =
     (case v of
        PyStr p \<Rightarrow>
          (case import_from_file e p of
             Inl err \<Rightarrow> (Inl err, h)
           | Inr t \<Rightarrow> (Inr (Some (snd (alloc h t))), fst (alloc h t)))
      | PyData d \<Rightarrow>
          (case DataFrame e d of
             None \<Rightarrow> (Inl UnconvertibleInput, h)
           | Some cols \<Rightarrow>
               (Inr (Some (snd (alloc h (mk_frame e cols)))), fst (alloc h (mk_frame e cols))))
      | PyNone \<Rightarrow> (Inr None, h)
      | PyObj r \<Rightarrow> (Inr (Some r), h))"

text \<open>The setter assigns \<^verbatim>\<open>_df\<close> before it calls \<^verbatim>\<open>_load_engine\<close>; the result carries the
  store and the attributes as the exception, if any, leaves them.\<close>

definition dataframe_set :: "env \<Rightarrow> heap \<Rightarrow> core \<Rightarrow> pyval \<Rightarrow> (error + unit) \<times> heap \<times> core" where
  "dataframe_set e h s v =
     (case validate_and_convert_dataframe e h v of
        (Inl err, h') \<Rightarrow> (Inl err, h', s)
      | (Inr d, h') \<Rightarrow>
          (case d of
             None \<Rightarrow> (Inr (), h', s\<lparr>df := None\<rparr>)
           | Some r \<Rightarrow>
               (case load_engine e h' (s\<lparr>df := Some r\<rparr>) of
                  Inl err \<Rightarrow> (Inl err, h', s\<lparr>df := Some r\<rparr>)
                | Inr s' \<Rightarrow> (Inr (), h', s'))))"

subsection \<open>\<^verbatim>\<open>load_connector\<close> and \<^verbatim>\<open>_unload_connector\<close>\<close>

text \<open>\<^verbatim>\<open>self.connector.execute()\<close> on an object without a connector is an attribute lookup
  on \<^verbatim>\<open>None\<close>. The dataframe the connector returns is a new object.\<close>

definition load_connector :: "env \<Rightarrow> heap \<Rightarrow> core \<Rightarrow> bool \<Rightarrow> (error + unit) \<times> heap \<times> core" where
  "load_connector e h s temporary =
     (case connector s of
        None \<Rightarrow> (Inl AttributeError, h, s)
      | Some c \<Rightarrow>
          (case conn_execute c of
             None \<Rightarrow> (Inl ExternalError, h, s)
           | Some t \<Rightarrow>
               (case dataframe_set e (fst (alloc h t)) s (PyObj (snd (alloc h t))) of
                  (Inl err, h', s') \<Rightarrow> (Inl err, h', s')
                | (Inr u, h', s') \<Rightarrow>
                    (Inr (), h', s'\<lparr>df_loaded := True, temporary_loaded := temporary\<rparr>))))"

definition unload_connector :: "core \<Rightarrow> core" where
  "unload_connector s = s\<lparr>df := None, df_loaded := False, temporary_loaded := False\<rparr>"

subsection \<open>The \<^verbatim>\<open>dataframe\<close> getter\<close>

text \<open>\<^verbatim>\<open>self._df.copy()\<close> exists on pandas and modin frames and \<^verbatim>\<open>self._df.clone()\<close> on
  polars frames; on \<^verbatim>\<open>None\<close> and on an object of another class the attribute lookup
  fails. Both create a new frame object with the same labels and cells. The cells are
  copied as they are: a cell that refers to a Python object refers to the same object in
  the copy, since the libraries copy the column arrays and not the objects in them.\<close>

definition method_copy :: "heap \<Rightarrow> ref option \<Rightarrow> (error + ref option) \<times> heap" where
  "method_copy h d =
     (case (case d of None \<Rightarrow> None | Some r \<Rightarrow> heap_get h r) of
        None \<Rightarrow> (Inl AttributeError, h)
      | Some t \<Rightarrow>
          (if backend t = PandasDataFrame \<or> backend t = ModinDataFrame
           then (Inr (Some (snd (alloc h t))), fst (alloc h t))
           else (Inl AttributeError, h)))"

definition method_clone :: "heap \<Rightarrow> ref option \<Rightarrow> (error + ref option) \<times> heap" where
  "method_clone h d =
     (case (case d of None \<Rightarrow> None | Some r \<Rightarrow> heap_get h r) of
        None \<Rightarrow> (Inl AttributeError, h)
      | Some t \<Rightarrow>
          (if backend t = PolarsDataFrame
           then (Inr (Some (snd (alloc h t))), fst (alloc h t))
           else (Inl AttributeError, h)))"

definition dataframe :: "heap \<Rightarrow> core \<Rightarrow> (error + ref option) \<times> heap \<times> core" where
  "dataframe h s =
     (if df_loaded s then
        (case (case engine s of
                 Some Polars \<Rightarrow> method_clone h (df s)
               | Some Pandas \<Rightarrow> method_copy h (df s)
               | Some Modin \<Rightarrow> method_copy h (df s)
               | None \<Rightarrow> (Inr None, h)) of
           (Inl err, h') \<Rightarrow> (Inl err, h', s)
         | (Inr return_df, h') \<Rightarrow>
             (Inr return_df, h',
              if has_connector s \<and> df_loaded s \<and> temporary_loaded s
              then unload_connector s else s))
      else (Inr None, h, s))"

text \<open>The loaded states of the specification's data model: the core is marked loaded, owns
  the object \<open>t\<close> at \<open>r\<close>, and its engine tag is the one detected for \<open>t\<close>.\<close>

definition loaded_state :: "heap \<Rightarrow> core \<Rightarrow> ref \<Rightarrow> table \<Rightarrow> bool" where
  "loaded_state h s r t =
     (df_loaded s \<and> df s = Some r \<and> heap_get h r = Some t \<and> engine s = df_type t \<and>
      df_type t \<noteq> None)"

subsection \<open>\<^verbatim>\<open>_load_dataframe\<close>\<close>

text \<open>
  What the constructor receives: a connector, a Series (with the library whose
  \<^verbatim>\<open>Series\<close> class it is), or any other value. \<^verbatim>\<open>isinstance(df, pd.Series)\<close> holds for a
  Series of the configured module; \<^verbatim>\<open>df.to_frame()\<close> is a new one-column frame. A Series
  of another library takes the last branch as an object that is no dataframe.
\<close>

datatype source = SrcConnector connector | SrcSeries engine column | SrcVal pyval

definition isinstance_Series :: "env \<Rightarrow> engine \<Rightarrow> bool" where
  "isinstance_Series e lib =
     (case pd e of PandasModule \<Rightarrow> lib = Pandas | ModinModule \<Rightarrow> lib = Modin)"

definition is_ValueError :: "error \<Rightarrow> bool" where
  "is_ValueError err =
     (err = InvalidFileFormat \<or> err = UnconvertibleInput \<or> err = UnrecognizedEngine \<or>
      err = EngineMismatch \<or> err = UnsupportedEngine)"

definition load_dataframe :: "env \<Rightarrow> heap \<Rightarrow> core \<Rightarrow> source \<Rightarrow> (error + unit) \<times> heap \<times> core" where
  "load_dataframe e h s src =
     (case src of
        SrcConnector c \<Rightarrow>
          (case dataframe_set e h s PyNone of
             (Inl err, h', s') \<Rightarrow> (Inl err, h', s')
           | (Inr u, h', s') \<Rightarrow> (Inr (), h', s'\<lparr>connector := Some c, df_loaded := False\<rparr>))
      | SrcVal (PyStr p) \<Rightarrow>
          (case import_from_file e p of
             Inl err \<Rightarrow> (Inl err, h, s)
           | Inr t \<Rightarrow> dataframe_set e (fst (alloc h t)) s (PyObj (snd (alloc h t))))
      | SrcSeries lib col \<Rightarrow>
          (if isinstance_Series e lib
           then dataframe_set e (fst (alloc h (mk_frame e [col]))) s
                  (PyObj (snd (alloc h (mk_frame e [col]))))
           else dataframe_set e (fst (alloc h \<lparr>backend = OtherObject, columns = [col]\<rparr>)) s
                  (PyObj (snd (alloc h \<lparr>backend = OtherObject, columns = [col]\<rparr>))))
      | SrcVal (PyData d) \<Rightarrow>
          (case DataFrame e d of
             None \<Rightarrow> (Inl UnconvertibleInput, h, s)
           | Some cols \<Rightarrow>
               (case dataframe_set e (fst (alloc h (mk_frame e cols))) s
                       (PyObj (snd (alloc h (mk_frame e cols)))) of
                  (Inl err, h', s') \<Rightarrow>
                    (Inl (if is_ValueError err then UnconvertibleInput else err), h', s')
                | (Inr u, h', s') \<Rightarrow> (Inr (), h', s')))
      | SrcVal PyNone \<Rightarrow> dataframe_set e h s PyNone
      | SrcVal (PyObj r) \<Rightarrow> dataframe_set e h s (PyObj r))"

text \<open>\<^verbatim>\<open>SmartDataframeCore.__init__\<close>\<close>

definition core_init :: "env \<Rightarrow> heap \<Rightarrow> source \<Rightarrow> (error + unit) \<times> heap \<times> core" where
  "core_init e h src = load_dataframe e h new_core src"

section \<open>SmartDataframe\<close>

text \<open>The wrapper: its core, \<^verbatim>\<open>_custom_head\<close> (the CSV text of the custom head, if any) and
  \<^verbatim>\<open>lake.config.enforce_privacy\<close>.\<close>

record smart_dataframe =
  core :: core
  custom_head :: "string option"
  enforce_privacy :: bool

text \<open>The \<^verbatim>\<open>custom_head\<close> setter, also the last statement of \<^verbatim>\<open>__init__\<close>.\<close>

definition set_custom_head :: "env \<Rightarrow> smart_dataframe \<Rightarrow> table \<Rightarrow> smart_dataframe" where
  "set_custom_head e sdf t = sdf\<lparr>custom_head := Some (to_csv e t)\<rparr>"

subsection \<open>\<^verbatim>\<open>_truncate_head_columns\<close>\<close>

text \<open>Python's \<^verbatim>\<open>s[0:stop]\<close>; a negative \<open>stop\<close> counts from the end.\<close>

definition py_slice0 :: "int \<Rightarrow> string \<Rightarrow> string" where
  "py_slice0 stop s =
     (if 0 \<le> stop then take (nat stop) s else take (length s - nat (- stop)) s)"

text \<open>\<^verbatim>\<open>series.str.slice(0, stop)\<close>: element-wise on strings, missing for other values.\<close>

definition str_slice :: "int \<Rightarrow> column \<Rightarrow> column" where
  "str_slice stop c =
     c\<lparr>col_cells := map (\<lambda>v. case v of StrCell x \<Rightarrow> StrCell (py_slice0 stop x) | _ \<Rightarrow> NullCell)
                        (col_cells c)\<rparr>"

text \<open>\<^verbatim>\<open>isinstance(first_val, str) and len(first_val) > max_size\<close>\<close>

definition long_str :: "cell \<Rightarrow> int \<Rightarrow> bool" where
  "long_str v max_size = (case v of StrCell x \<Rightarrow> int (length x) > max_size | _ \<Rightarrow> False)"

text \<open>
  The pandas and modin branch assigns to the column the f-string
  \<^verbatim>\<open>f"{df_trunc[col].str.slice(0, max_size - 3)}..."\<close>: one string, the text of the whole
  sliced Series followed by three dots. Assigning a string to a column sets every row
  to it. \<^verbatim>\<open>iloc[0]\<close> on a column without rows raises \<^verbatim>\<open>IndexError\<close>. The loop runs
  over the labels of the frame (\<open>labels\<close>): where a label occurs more than once,
  \<^verbatim>\<open>df[col]\<close> is a frame, not a Series, and \<^verbatim>\<open>.dtype\<close> is an attribute error.
\<close>

definition assign_scalar :: "column \<Rightarrow> string \<Rightarrow> column" where
  "assign_scalar c x = c\<lparr>col_cells := replicate (length (col_cells c)) (StrCell x)\<rparr>"

fun truncate_pandas :: "env \<Rightarrow> int \<Rightarrow> label list \<Rightarrow> column list \<Rightarrow> error + column list" where
  "truncate_pandas e max_size labels [] = Inr []"
| "truncate_pandas e max_size labels (c # cs) =
     (if 1 < length (filter (\<lambda>l. l = col_name c) labels) then Inl AttributeError
      else if col_dtype c = ObjectDtype then
        (case col_cells c of
           [] \<Rightarrow> Inl IndexError
         | first_val # _ \<Rightarrow>
             (case truncate_pandas e max_size labels cs of
                Inl err \<Rightarrow> Inl err
              | Inr cs' \<Rightarrow>
                  Inr ((if long_str first_val max_size
                        then assign_scalar c (series_str e (str_slice (max_size - 3) c) @ ''...'')
                        else c) # cs')))
      else
        (case truncate_pandas e max_size labels cs of
           Inl err \<Rightarrow> Inl err
         | Inr cs' \<Rightarrow> Inr (c # cs')))"

text \<open>
  The polars branch compares \<^verbatim>\<open>len(df_trunc[col])\<close>, the number of rows, with
  \<^verbatim>\<open>max_size\<close>; a polars frame rejects the item assignment with \<^verbatim>\<open>TypeError\<close>.
  \<^verbatim>\<open>df[col][0]\<close> on a column without rows is polars' out-of-bounds error. The labels of a
  polars frame are distinct strings.
\<close>

fun truncate_polars :: "int \<Rightarrow> column list \<Rightarrow> error + column list" where
  "truncate_polars max_size [] = Inr []"
| "truncate_polars max_size (c # cs) =
     (if col_dtype c = Utf8 then
        (case col_cells c of
           [] \<Rightarrow> Inl OutOfBounds
         | first_val # _ \<Rightarrow>
             (if (case first_val of StrCell x \<Rightarrow> True | _ \<Rightarrow> False) \<and>
                 int (length (col_cells c)) > max_size
              then Inl TypeError
              else (case truncate_polars max_size cs of
                      Inl err \<Rightarrow> Inl err
                    | Inr cs' \<Rightarrow> Inr (c # cs'))))
      else
        (case truncate_polars max_size cs of
           Inl err \<Rightarrow> Inl err
         | Inr cs' \<Rightarrow> Inr (c # cs')))"

definition truncate_head_columns :: "env \<Rightarrow> table \<Rightarrow> int \<Rightarrow> error + table" where
  "truncate_head_columns e t max_size =
     (case df_type t of
        Some Pandas \<Rightarrow>
          (case truncate_pandas e max_size (map col_name (columns t)) (columns t) of
             Inl err \<Rightarrow> Inl err | Inr cs \<Rightarrow> Inr (t\<lparr>columns := cs\<rparr>))
      | Some Modin \<Rightarrow>
          (case truncate_pandas e max_size (map col_name (columns t)) (columns t) of
             Inl err \<Rightarrow> Inl err | Inr cs \<Rightarrow> Inr (t\<lparr>columns := cs\<rparr>))
      | Some Polars \<Rightarrow>
          (case truncate_polars max_size (columns t) of
             Inl err \<Rightarrow> Inl err | Inr cs \<Rightarrow> Inr (t\<lparr>columns := cs\<rparr>))
      | None \<Rightarrow> Inl UnsupportedEngine)"

subsection \<open>\<^verbatim>\<open>_get_sample_head\<close>\<close>

text \<open>\<^verbatim>\<open>df.head(n)\<close>: the first \<open>n\<close> rows.\<close>

definition head_rows :: "nat \<Rightarrow> table \<Rightarrow> table" where
  "head_rows n t = t\<lparr>columns := map (\<lambda>c. c\<lparr>col_cells := take n (col_cells c)\<rparr>) (columns t)\<rparr>"

text \<open>The number of rows, column by column.\<close>

definition row_counts :: "table \<Rightarrow> nat list" where
  "row_counts t = map (\<lambda>c. length (col_cells c)) (columns t)"

text \<open>A table without rows.\<close>

definition no_rows :: "table \<Rightarrow> bool" where
  "no_rows t = list_all (\<lambda>c. col_cells c = []) (columns t)"

definition rows_to_display :: "smart_dataframe \<Rightarrow> nat" where
  "rows_to_display sdf = (if enforce_privacy sdf then 0 else 3)"

text \<open>The first part of \<^verbatim>\<open>_get_sample_head\<close>: the choice of \<^verbatim>\<open>head\<close>. Reading
  \<^verbatim>\<open>self.dataframe\<close> may change the core; \<^verbatim>\<open>.head\<close> on \<^verbatim>\<open>None\<close> is an attribute error.\<close>

definition base_head ::
  "env \<Rightarrow> heap \<Rightarrow> smart_dataframe \<Rightarrow> (error + table option) \<times> heap \<times> smart_dataframe" where
  "base_head e h sdf =
     (case custom_head sdf of
        Some csv \<Rightarrow>
          (case read_csv_buffer e csv of
             None \<Rightarrow> (Inl ExternalError, h, sdf)
           | Some cols \<Rightarrow> (Inr (Some (mk_frame e cols)), h, sdf))
      | None \<Rightarrow>
          (if \<not> df_loaded (core sdf) \<and> connector (core sdf) \<noteq> None then
             (Inr (case connector (core sdf) of None \<Rightarrow> None | Some c \<Rightarrow> conn_head c), h, sdf)
           else
             (case dataframe h (core sdf) of
                (Inl err, h', s') \<Rightarrow> (Inl err, h', sdf\<lparr>core := s'\<rparr>)
              | (Inr None, h', s') \<Rightarrow> (Inl AttributeError, h', sdf\<lparr>core := s'\<rparr>)
              | (Inr (Some r), h', s') \<Rightarrow>
                  (case heap_get h' r of
                     None \<Rightarrow> (Inl AttributeError, h', sdf\<lparr>core := s'\<rparr>)
                   | Some t \<Rightarrow>
                       (Inr (Some (head_rows (rows_to_display sdf) t)), h', sdf\<lparr>core := s'\<rparr>)))))"

definition get_sample_head ::
  "env \<Rightarrow> heap \<Rightarrow> smart_dataframe \<Rightarrow> (error + table option) \<times> heap \<times> smart_dataframe" where
  "get_sample_head e h sdf =
     (case base_head e h sdf of
        (Inl err, h', sdf') \<Rightarrow> (Inl err, h', sdf')
      | (Inr None, h', sdf') \<Rightarrow> (Inr None, h', sdf')
      | (Inr (Some hd_t), h', sdf') \<Rightarrow>
          (if enforce_privacy sdf then
             (Inr (Some (sample e hd_t (rows_to_display sdf))), h', sdf')
           else
             (case truncate_head_columns e (sample e hd_t (rows_to_display sdf)) 25 of
                Inl err \<Rightarrow> (Inl err, h', sdf')
              | Inr t \<Rightarrow> (Inr (Some t), h', sdf'))))"

subsection \<open>\<^verbatim>\<open>column_hash\<close>\<close>

text \<open>
  \<^verbatim>\<open>str.encode()\<close>: UTF-8, one to four bytes per code point. A surrogate (\<^verbatim>\<open>U+D800\<close> to
  \<^verbatim>\<open>U+DFFF\<close>) cannot be encoded: \<^verbatim>\<open>UnicodeEncodeError\<close>, here \<open>None\<close>. Numbers from
  \<^verbatim>\<open>0x110000\<close> on are no code points of a Python string and get \<open>None\<close> as well.
\<close>

definition utf8_char :: "nat \<Rightarrow> 8 word list option" where
  "utf8_char cp =
     (if cp < 128 then Some [of_nat cp]
      else if cp < 2048 then Some [of_nat (192 + cp div 64), of_nat (128 + cp mod 64)]
      else if 55296 \<le> cp \<and> cp < 57344 then None
      else if cp < 65536 then
        Some [of_nat (224 + cp div 4096), of_nat (128 + cp div 64 mod 64), of_nat (128 + cp mod 64)]
      else if cp < 1114112 then
        Some [of_nat (240 + cp div 262144), of_nat (128 + cp div 4096 mod 64),
              of_nat (128 + cp div 64 mod 64), of_nat (128 + cp mod 64)]
      else None)"

fun encode_utf8 :: "pystr \<Rightarrow> 8 word list option" where
  "encode_utf8 [] = Some []"
| "encode_utf8 (cp # s) =
     (case utf8_char cp of
        None \<Rightarrow> None
      | Some bs \<Rightarrow> (case encode_utf8 s of None \<Rightarrow> None | Some rest \<Rightarrow> Some (bs @ rest)))"

text \<open>\<^verbatim>\<open>"".join(self.dataframe.columns)\<close>: the labels joined without a separator;
  \<^verbatim>\<open>TypeError\<close>, here \<open>None\<close>, when a label is not a string.\<close>

fun join_labels :: "label list \<Rightarrow> pystr option" where
  "join_labels [] = Some []"
| "join_labels (StrLabel x # ls) =
     (case join_labels ls of None \<Rightarrow> None | Some rest \<Rightarrow> Some (x @ rest))"
| "join_labels (IntLabel i # ls) = None"

definition columns_str :: "table \<Rightarrow> pystr option" where
  "columns_str t = join_labels (map col_name (columns t))"

definition column_hash ::
  "env \<Rightarrow> heap \<Rightarrow> smart_dataframe \<Rightarrow> (error + string) \<times> heap \<times> smart_dataframe" where
  "column_hash e h sdf =
     (if \<not> df_loaded (core sdf) \<and> connector (core sdf) \<noteq> None then
        (case connector (core sdf) of
           None \<Rightarrow> (Inl AttributeError, h, sdf)
         | Some c \<Rightarrow> (Inr (conn_column_hash c), h, sdf))
      else
        (case dataframe h (core sdf) of
           (Inl err, h', s') \<Rightarrow> (Inl err, h', sdf\<lparr>core := s'\<rparr>)
         | (Inr None, h', s') \<Rightarrow> (Inl AttributeError, h', sdf\<lparr>core := s'\<rparr>)
         | (Inr (Some r), h', s') \<Rightarrow>
             (case heap_get h' r of
                None \<Rightarrow> (Inl AttributeError, h', sdf\<lparr>core := s'\<rparr>)
              | Some t \<Rightarrow>
                  (case columns_str t of
                     None \<Rightarrow> (Inl TypeError, h', sdf\<lparr>core := s'\<rparr>)
                   | Some joined \<Rightarrow>
                       (case encode_utf8 joined of
                          None \<Rightarrow> (Inl UnicodeEncodeError, h', sdf\<lparr>core := s'\<rparr>)
                        | Some bs \<Rightarrow> (Inr (sha256_hexdigest e bs), h', sdf\<lparr>core := s'\<rparr>))))))"

subsection \<open>\<^verbatim>\<open>__eq__\<close>\<close>

text \<open>The right operand is an instance of the class of the left one, or some other
  object. \<^verbatim>\<open>BaseConnector.equals\<close> is a parameter.\<close>

datatype operand = Instance smart_dataframe | Foreign

definition smart_dataframe_eq ::
  "(connector \<Rightarrow> connector \<Rightarrow> bool) \<Rightarrow> smart_dataframe \<Rightarrow> operand \<Rightarrow> bool" where
  "smart_dataframe_eq equals self other =
     (case other of
        Foreign \<Rightarrow> False
      | Instance o_sdf \<Rightarrow>
          (case (connector (core self), connector (core o_sdf)) of
             (Some c1, Some c2) \<Rightarrow> equals c1 c2
           | _ \<Rightarrow> False))"

section \<open>Example values\<close>

definition ex_env :: env where
  "ex_env = \<lparr>pd = PandasModule,
             read_csv = (\<lambda>p. Some []), read_parquet = (\<lambda>p. Some []), read_excel = (\<lambda>p. None),
             from_google_sheets = (\<lambda>p. Some [[]]),
             DataFrame = (\<lambda>d. None),
             sample = (\<lambda>t n. head_rows n t),
             series_str = (\<lambda>c. ''Series''),
             to_csv = (\<lambda>t. []),
             read_csv_buffer = (\<lambda>x. None),
             sha256_hexdigest = (\<lambda>bs. replicate 64 CHR ''0'')\<rparr>"

text \<open>The label that is the string \<open>n\<close>.\<close>

definition str_label :: "string \<Rightarrow> label" where
  "str_label n = StrLabel (map of_char n)"

definition ex_col :: "string \<Rightarrow> cell list \<Rightarrow> column" where
  "ex_col n cs = \<lparr>col_name = str_label n, col_dtype = ObjectDtype, col_cells = cs\<rparr>"

text \<open>Readers whose frames can be told apart, a reader that raises, and an importer that
  returns two sheets.\<close>

definition rd_env :: env where
  "rd_env = ex_env\<lparr>read_csv := (\<lambda>p. Some [ex_col ''from_csv'' [IntCell 1]]),
                   read_parquet := (\<lambda>p. Some [ex_col ''from_parquet'' [IntCell 2]]),
                   read_excel := (\<lambda>p. None),
                   from_google_sheets :=
                     (\<lambda>p. Some [[ex_col ''sheet1'' [IntCell 3]], [ex_col ''sheet2'' [IntCell 4]]])\<rparr>"

text \<open>A pandas frame with one object column whose only cell refers to the object 0, and a
  frame with the integer labels 0 and 1.\<close>

definition ex_listed :: table where
  "ex_listed = \<lparr>backend = PandasDataFrame, columns = [ex_col ''tags'' [ObjCell 0]]\<rparr>"

definition ex_int_labels :: table where
  "ex_int_labels = \<lparr>backend = PandasDataFrame,
                    columns = [\<lparr>col_name = IntLabel 0, col_dtype = OtherDtype, col_cells = [IntCell 1]\<rparr>,
                               \<lparr>col_name = IntLabel 1, col_dtype = OtherDtype, col_cells = [IntCell 2]\<rparr>]\<rparr>"

definition ex_pandas :: table where
  "ex_pandas = \<lparr>backend = PandasDataFrame,
                columns = [ex_col ''a'' [StrCell ''x'', StrCell ''y''], ex_col ''b'' [IntCell 1, IntCell 2]]\<rparr>"

definition ex_modin :: table where
  "ex_modin = \<lparr>backend = ModinDataFrame, columns = [ex_col ''m'' [IntCell 7]]\<rparr>"

definition ex_polars :: table where
  "ex_polars = \<lparr>backend = PolarsDataFrame, columns = [ex_col ''p'' [IntCell 7]]\<rparr>"

definition ex_connector :: connector where
  "ex_connector = \<lparr>conn_config = ''db'', conn_execute = Some ex_pandas, conn_head = None,
                   conn_column_hash = ''h'', conn_rows_count = 2, conn_columns_count = 2\<rparr>"

definition ex_loaded_core :: core where
  "ex_loaded_core = \<lparr>df = Some 0, df_loaded = True, temporary_loaded = False,
                     connector = None, engine = Some Pandas\<rparr>"

definition ex_long_col :: column where
  "ex_long_col = \<lparr>col_name = str_label ''note'', col_dtype = ObjectDtype,
                  col_cells = [StrCell (replicate 40 CHR ''a''), StrCell (replicate 40 CHR ''b'')]\<rparr>"

definition ex_long :: table where
  "ex_long = \<lparr>backend = PandasDataFrame, columns = [ex_long_col]\<rparr>"

definition cx_env :: env where
  "cx_env = ex_env\<lparr>sample := (\<lambda>t n. t), read_csv_buffer := (\<lambda>x. Some [ex_long_col])\<rparr>"

definition ex_sdf :: smart_dataframe where
  "ex_sdf = \<lparr>core = ex_loaded_core, custom_head = None, enforce_privacy = False\<rparr>"

definition ex_named :: "string list \<Rightarrow> cell list \<Rightarrow> table" where
  "ex_named names cs = \<lparr>backend = PandasDataFrame, columns = map (\<lambda>n. ex_col n cs) names\<rparr>"

section \<open>Engine detection and validation\<close>

lemma load_engine_cases:
  "load_engine e h s =
     (case owned h s of
        None \<Rightarrow> Inl UnrecognizedEngine
      | Some t \<Rightarrow>
          (case backend t of
             OtherObject \<Rightarrow> Inl UnrecognizedEngine
           | PolarsDataFrame \<Rightarrow> Inr (s\<lparr>engine := Some Polars\<rparr>)
           | PandasDataFrame \<Rightarrow>
               (if pd e = PandasModule then Inr (s\<lparr>engine := Some Pandas\<rparr>) else Inl EngineMismatch)
           | ModinDataFrame \<Rightarrow>
               (if pd e = ModinModule then Inr (s\<lparr>engine := Some Modin\<rparr>) else Inl EngineMismatch)))"
  by (simp add: load_engine_def df_type_def isinstance_DataFrame_def frame_class_def
      split: option.splits backend.splits pd_module.splits)

text \<open>
  Claim C8. For a core whose \<^verbatim>\<open>_df\<close> is the object \<open>t\<close>: \<^verbatim>\<open>_load_engine\<close> fails with
  \<open>UnrecognizedEngine\<close> exactly when \<^verbatim>\<open>df_type\<close> detects no engine, that is, when \<open>t\<close> is
  none of the three dataframe classes; it fails
  with \<open>EngineMismatch\<close> exactly when the detected engine is pandas or modin and \<open>t\<close> is
  not an instance of the configured module's \<^verbatim>\<open>DataFrame\<close>; a polars frame is never
  rejected; and when it does not fail it stores the detected tag, one of the three, and
  changes nothing else.
\<close>

theorem load_engine_detects_and_validates:
  "owned h s = Some t \<Longrightarrow>
     ((load_engine e h s = Inl UnrecognizedEngine) = (df_type t = None)) \<and>
     ((df_type t = None) = (backend t = OtherObject)) \<and>
     ((load_engine e h s = Inl EngineMismatch) =
        ((df_type t = Some Pandas \<or> df_type t = Some Modin) \<and> \<not> isinstance_DataFrame e t)) \<and>
     ((df_type t = Some Polars) = (backend t = PolarsDataFrame)) \<and>
     (df_type t = Some Polars \<longrightarrow> load_engine e h s = Inr (s\<lparr>engine := Some Polars\<rparr>)) \<and>
     (load_engine e h s \<noteq> Inl UnrecognizedEngine \<and> load_engine e h s \<noteq> Inl EngineMismatch \<longrightarrow>
        load_engine e h s = Inr (s\<lparr>engine := df_type t\<rparr>) \<and>
        df_type t \<in> {Some Pandas, Some Modin, Some Polars})"
  by (auto simp: load_engine_cases df_type_def isinstance_DataFrame_def frame_class_def
      split: backend.splits pd_module.splits if_splits)

theorem load_engine_detects_and_validates_witness:
  "owned [ex_modin] (new_core\<lparr>df := Some 0\<rparr>) = Some ex_modin \<and>
   load_engine ex_env [ex_modin] (new_core\<lparr>df := Some 0\<rparr>) = Inl EngineMismatch \<and>
   df_type ex_modin = Some Modin \<and> \<not> isinstance_DataFrame ex_env ex_modin"
  using load_engine_detects_and_validates
          [of "[ex_modin]" "new_core\<lparr>df := Some 0\<rparr>" ex_modin ex_env]
  by (simp add: owned_def heap_get_def ex_modin_def ex_env_def new_core_def df_type_def
      isinstance_DataFrame_def frame_class_def)

section \<open>File dispatch\<close>

lemma endswith_last:
  "endswith s suffix \<Longrightarrow> suffix \<noteq> [] \<Longrightarrow> last s = last suffix"
  unfolding endswith_def
  by (metis diff_less last_drop length_greater_0_conv less_le_trans)

lemma suffixes_exclusive:
  "\<not> (endswith p ''.csv'' \<and> endswith p ''.parquet'')"
  "\<not> (endswith p ''.csv'' \<and> endswith p ''.xlsx'')"
  "\<not> (endswith p ''.parquet'' \<and> endswith p ''.xlsx'')"
  using endswith_last[of p "''.csv''"] endswith_last[of p "''.parquet''"]
        endswith_last[of p "''.xlsx''"]
  by auto

lemma reader_result_not_format: "reader_result e r \<noteq> Inl InvalidFileFormat"
  by (simp add: reader_result_def split: option.splits)

text \<open>
  Claim C9, as stated, fails: a string with the Google Sheets URL prefix that ends in
  \<^verbatim>\<open>.csv\<close> is not routed to the sheet importer. The suffixes are tested first, so it gets
  the frame of the CSV reader, which is not the importer's first sheet.
\<close>

theorem sheets_url_with_csv_suffix_is_read_as_csv:
  "startswith ''https://docs.google.com/spreadsheets/d/1/pub#data.csv''
     ''https://docs.google.com/spreadsheets/'' \<and>
   endswith ''https://docs.google.com/spreadsheets/d/1/pub#data.csv'' ''.csv'' \<and>
   import_from_file rd_env ''https://docs.google.com/spreadsheets/d/1/pub#data.csv'' =
     Inr \<lparr>backend = PandasDataFrame, columns = [ex_col ''from_csv'' [IntCell 1]]\<rparr> \<and>
   from_google_sheets rd_env ''https://docs.google.com/spreadsheets/d/1/pub#data.csv'' =
     Some [[ex_col ''sheet1'' [IntCell 3]], [ex_col ''sheet2'' [IntCell 4]]] \<and>
   import_from_file rd_env ''https://docs.google.com/spreadsheets/d/1/pub#data.csv'' \<noteq>
     Inr \<lparr>backend = PandasDataFrame, columns = [ex_col ''sheet1'' [IntCell 3]]\<rparr>"
  by (simp add: import_from_file_def endswith_def startswith_def reader_result_def mk_frame_def
      frame_class_def rd_env_def ex_env_def ex_col_def str_label_def)

text \<open>
  Claim C9, amended. \<^verbatim>\<open>_import_from_file\<close> tests the suffixes first, then the prefix. A
  string ending in \<^verbatim>\<open>.csv\<close>, \<^verbatim>\<open>.parquet\<close> or \<^verbatim>\<open>.xlsx\<close> gets what \<^verbatim>\<open>pd.read_csv\<close>,
  \<^verbatim>\<open>pd.read_parquet\<close> or \<^verbatim>\<open>pd.read_excel\<close> does with it: that reader's frame, a frame of
  the configured module with the columns the reader produced, or the reader's exception.
  A string with none of the three suffixes that starts with the Google Sheets URL prefix
  gets the first sheet of the importer's list, the importer's exception, or
  \<^verbatim>\<open>IndexError\<close> when the list is empty. Every other string, and no string of these four
  kinds, fails with \<open>InvalidFileFormat\<close>.
\<close>

theorem import_from_file_dispatch:
  "(endswith p ''.csv'' \<longrightarrow>
      import_from_file e p =
        (case read_csv e p of
           None \<Rightarrow> Inl ExternalError
         | Some cols \<Rightarrow> Inr \<lparr>backend = frame_class (pd e), columns = cols\<rparr>)) \<and>
   (endswith p ''.parquet'' \<longrightarrow>
      import_from_file e p =
        (case read_parquet e p of
           None \<Rightarrow> Inl ExternalError
         | Some cols \<Rightarrow> Inr \<lparr>backend = frame_class (pd e), columns = cols\<rparr>)) \<and>
   (endswith p ''.xlsx'' \<longrightarrow>
      import_from_file e p =
        (case read_excel e p of
           None \<Rightarrow> Inl ExternalError
         | Some cols \<Rightarrow> Inr \<lparr>backend = frame_class (pd e), columns = cols\<rparr>)) \<and>
   (\<not> endswith p ''.csv'' \<and> \<not> endswith p ''.parquet'' \<and> \<not> endswith p ''.xlsx'' \<and>
    startswith p ''https://docs.google.com/spreadsheets/'' \<longrightarrow>
      import_from_file e p =
        (case from_google_sheets e p of
           None \<Rightarrow> Inl ExternalError
         | Some [] \<Rightarrow> Inl IndexError
         | Some (sheet # rest) \<Rightarrow> Inr \<lparr>backend = frame_class (pd e), columns = sheet\<rparr>)) \<and>
   ((import_from_file e p = Inl InvalidFileFormat) =
      (\<not> endswith p ''.csv'' \<and> \<not> endswith p ''.parquet'' \<and> \<not> endswith p ''.xlsx'' \<and>
       \<not> startswith p ''https://docs.google.com/spreadsheets/''))"
  using suffixes_exclusive[of p]
  by (auto simp: import_from_file_def reader_result_def mk_frame_def
      split: option.splits list.splits)

theorem import_from_file_dispatch_witness:
  "endswith ''data.csv'' ''.csv'' \<and>
   import_from_file rd_env ''data.csv'' =
     Inr \<lparr>backend = PandasDataFrame, columns = [ex_col ''from_csv'' [IntCell 1]]\<rparr> \<and>
   endswith ''data.parquet'' ''.parquet'' \<and>
   import_from_file rd_env ''data.parquet'' =
     Inr \<lparr>backend = PandasDataFrame, columns = [ex_col ''from_parquet'' [IntCell 2]]\<rparr> \<and>
   endswith ''data.xlsx'' ''.xlsx'' \<and> read_excel rd_env ''data.xlsx'' = None \<and>
   import_from_file rd_env ''data.xlsx'' = Inl ExternalError \<and>
   startswith ''https://docs.google.com/spreadsheets/d/1'' ''https://docs.google.com/spreadsheets/'' \<and>
   import_from_file rd_env ''https://docs.google.com/spreadsheets/d/1'' =
     Inr \<lparr>backend = PandasDataFrame, columns = [ex_col ''sheet1'' [IntCell 3]]\<rparr> \<and>
   import_from_file rd_env ''notes.txt'' = Inl InvalidFileFormat"
  using import_from_file_dispatch[of "''data.csv''" rd_env]
        import_from_file_dispatch[of "''data.parquet''" rd_env]
        import_from_file_dispatch[of "''data.xlsx''" rd_env]
        import_from_file_dispatch[of "''https://docs.google.com/spreadsheets/d/1''" rd_env]
        import_from_file_dispatch[of "''notes.txt''" rd_env]
  by (simp add: endswith_def startswith_def rd_env_def ex_env_def frame_class_def)

section \<open>Equality\<close>

text \<open>
  Claim C10. \<^verbatim>\<open>__eq__\<close> between two SmartDataframes is \<^verbatim>\<open>False\<close> as soon as one of them
  has no connector; in particular a SmartDataframe without a connector is not equal to
  itself.
\<close>

theorem eq_false_without_both_connectors:
  "(\<not> has_connector (core a) \<or> \<not> has_connector (core b) \<longrightarrow>
      \<not> smart_dataframe_eq equals a (Instance b)) \<and>
   (\<not> has_connector (core a) \<longrightarrow> \<not> smart_dataframe_eq equals a (Instance a))"
  by (auto simp: smart_dataframe_eq_def has_connector_def split: option.splits)

theorem eq_false_without_both_connectors_witness:
  "\<not> has_connector new_core \<and>
   \<not> smart_dataframe_eq (\<lambda>c1 c2. True)
       \<lparr>core = new_core, custom_head = None, enforce_privacy = False\<rparr>
       (Instance \<lparr>core = new_core, custom_head = None, enforce_privacy = False\<rparr>)"
  using eq_false_without_both_connectors
          [of "\<lparr>core = new_core, custom_head = None, enforce_privacy = False\<rparr>"
              "\<lparr>core = new_core, custom_head = None, enforce_privacy = False\<rparr>" "\<lambda>c1 c2. True"]
  by (simp add: has_connector_def new_core_def)

section \<open>The load and unload state machine\<close>

lemma heap_get_append_new [simp]: "heap_get (h @ [t]) (length h) = Some t"
  by (simp add: heap_get_def)

lemma heap_get_append_old: "r < length h \<Longrightarrow> heap_get (h @ ts) r = heap_get h r"
  by (simp add: heap_get_def nth_append)

lemma heap_get_Some_less: "heap_get h r = Some t \<Longrightarrow> r < length h"
  by (simp add: heap_get_def split: if_splits)

lemma dataframe_set_obj:
  "dataframe_set e h s (PyObj r) =
     (case load_engine e h (s\<lparr>df := Some r\<rparr>) of
        Inl err \<Rightarrow> (Inl err, h, s\<lparr>df := Some r\<rparr>)
      | Inr s' \<Rightarrow> (Inr (), h, s'))"
  by (simp add: dataframe_set_def validate_and_convert_dataframe_def)

lemma load_engine_accepted:
  "owned h s = Some t \<Longrightarrow>
   load_engine e h s = (if accepted e t then Inr (s\<lparr>engine := df_type t\<rparr>)
                        else if df_type t = None then Inl UnrecognizedEngine else Inl EngineMismatch)"
  by (auto simp: load_engine_def accepted_def)

lemma load_connector_result:
  "connector s = Some c \<Longrightarrow> conn_execute c = Some t \<Longrightarrow>
   load_connector e h s temporary =
     (if accepted e t
      then (Inr (), h @ [t],
            s\<lparr>df := Some (length h), engine := df_type t, df_loaded := True,
              temporary_loaded := temporary\<rparr>)
      else (Inl (if df_type t = None then UnrecognizedEngine else EngineMismatch), h @ [t],
            s\<lparr>df := Some (length h)\<rparr>))"
  by (simp add: load_connector_def alloc_def dataframe_set_obj
      load_engine_accepted[where t = t] owned_def)

lemma dataframe_loaded:
  "df_loaded s \<Longrightarrow> df s = Some r \<Longrightarrow> heap_get h r = Some t \<Longrightarrow> engine s = df_type t \<Longrightarrow>
   df_type t \<noteq> None \<Longrightarrow>
   dataframe h s =
     (Inr (Some (length h)), h @ [t],
      if has_connector s \<and> temporary_loaded s then unload_connector s else s)"
  by (auto simp: dataframe_def method_copy_def method_clone_def alloc_def df_type_def
      split: backend.splits engine.splits option.splits)

lemma dataframe_unloaded: "\<not> df_loaded s \<Longrightarrow> dataframe h s = (Inr None, h, s)"
  by (simp add: dataframe_def)

text \<open>
  Claim C1. On a core with a connector, after \<^verbatim>\<open>load_connector(temporary=True)\<close> has
  returned: the core owns the table \<open>t\<close> that \<^verbatim>\<open>execute()\<close> produced and is loaded
  temporarily; the first read of \<^verbatim>\<open>dataframe\<close> returns a new object with the content \<open>t\<close>
  and leaves the core as \<^verbatim>\<open>_unload_connector\<close> makes it; the second read returns \<^verbatim>\<open>None\<close>
  and changes nothing, so every later read does the same; the connector is still there.
\<close>

theorem temporary_load_single_read:
  assumes "connector s = Some c" and "fst (load_connector e h s True) = Inr ()"
  shows "\<exists>t. conn_execute c = Some t \<and>
     (let r1 = load_connector e h s True; h1 = fst (snd r1); s1 = snd (snd r1);
          r2 = dataframe h1 s1; h2 = fst (snd r2); s2 = snd (snd r2);
          r3 = dataframe h2 s2
      in owned h1 s1 = Some t \<and> df_loaded s1 \<and> temporary_loaded s1 \<and>
         (\<exists>r. fst r2 = Inr (Some r) \<and> heap_get h2 r = Some t \<and> df s1 \<noteq> Some r) \<and>
         s2 = unload_connector s1 \<and>
         fst r3 = Inr None \<and> snd r3 = (h2, s2) \<and>
         has_connector s2 \<and> connector s2 = Some c \<and> df s2 = None \<and> \<not> df_loaded s2)"
proof -
  from assms obtain t where t: "conn_execute c = Some t"
    by (auto simp: load_connector_def split: option.splits)
  from assms t have acc: "accepted e t"
    by (auto simp: load_connector_result split: if_splits)
  let ?s1 = "s\<lparr>df := Some (length h), engine := df_type t, df_loaded := True,
                temporary_loaded := True\<rparr>"
  have r1: "load_connector e h s True = (Inr (), h @ [t], ?s1)"
    using assms(1) t acc by (simp add: load_connector_result)
  have hc: "has_connector ?s1"
    using assms(1) by (simp add: has_connector_def)
  have r2: "dataframe (h @ [t]) ?s1 = (Inr (Some (Suc (length h))), h @ [t] @ [t], unload_connector ?s1)"
    using dataframe_loaded[of ?s1 "length h" "h @ [t]" t] acc hc
    by (simp add: accepted_def)
  have r3: "dataframe (h @ [t] @ [t]) (unload_connector ?s1) = (Inr None, h @ [t] @ [t], unload_connector ?s1)"
    by (rule dataframe_unloaded) (simp add: unload_connector_def)
  show ?thesis
    using t r1 r2 r3 assms(1)
    by (simp add: Let_def owned_def unload_connector_def has_connector_def heap_get_def nth_append)
qed

theorem temporary_load_single_read_witness:
  "connector (new_core\<lparr>connector := Some ex_connector, df_loaded := False\<rparr>) = Some ex_connector \<and>
   fst (load_connector ex_env [] (new_core\<lparr>connector := Some ex_connector, df_loaded := False\<rparr>) True) = Inr () \<and>
   fst (dataframe [ex_pandas]
         (snd (snd (load_connector ex_env [] (new_core\<lparr>connector := Some ex_connector, df_loaded := False\<rparr>) True))))
     = Inr (Some 1)"
  using temporary_load_single_read
          [of "new_core\<lparr>connector := Some ex_connector, df_loaded := False\<rparr>" ex_connector ex_env "[]"]
  by (simp add: load_connector_def dataframe_set_def validate_and_convert_dataframe_def
      load_engine_def owned_def heap_get_def alloc_def df_type_def isinstance_DataFrame_def
      frame_class_def ex_connector_def ex_pandas_def ex_env_def new_core_def dataframe_def
      method_copy_def has_connector_def unload_connector_def)

lemma heap_set_other: "r \<noteq> r' \<Longrightarrow> heap_get (heap_set h r' u) r = heap_get h r"
  by (simp add: heap_get_def heap_set_def)

lemma length_heap_set [simp]: "length (heap_set h r u) = length h"
  by (simp add: heap_set_def)

lemma dataframe_set_establishes_loaded:
  "dataframe_set e h s v = (Inr (), h', s') \<Longrightarrow> v \<noteq> PyNone \<Longrightarrow> df_loaded s \<Longrightarrow>
   \<exists>r t. loaded_state h' s' r t \<and> accepted e t"
  by (auto simp: dataframe_set_def validate_and_convert_dataframe_def loaded_state_def
      load_engine_def owned_def accepted_def
      split: pyval.splits sum.splits option.splits if_splits prod.splits)

lemma table_view_unchanged:
  assumes "\<forall>i\<in>set (obj_refs t). obj_get os' i = obj_get os i"
  shows "table_view os' t = table_view os t"
proof -
  have "cell_view os' v = cell_view os v" if "c \<in> set (columns t)" "v \<in> set (col_cells c)" for c v
  proof (cases v)
    case (ObjCell i)
    with that have "i \<in> set (obj_refs t)"
      by (force simp: obj_refs_def)
    with assms ObjCell show ?thesis
      by (simp add: cell_view_def)
  qed (simp_all add: cell_view_def)
  then show ?thesis
    by (simp add: table_view_def)
qed

text \<open>
  Claim C2, as stated, fails: the copy is not deep. The pandas frame \<open>ex_listed\<close> has an
  object column whose cell refers to a list. A read returns a new frame whose cell refers
  to the same list (object 0). After the caller appends to that list through the
  returned frame, so that the list \<^verbatim>\<open>[1]\<close> is \<^verbatim>\<open>[1, 2]\<close>, the next read returns a frame
  that shows \<^verbatim>\<open>[1, 2]\<close>, not what the first read showed.
\<close>

theorem shared_cell_object_shows_in_next_read:
  "loaded_state [ex_listed] ex_loaded_core 0 ex_listed \<and>
   fst (dataframe [ex_listed] ex_loaded_core) = Inr (Some 1) \<and>
   heap_get (fst (snd (dataframe [ex_listed] ex_loaded_core))) 1 = Some ex_listed \<and>
   obj_refs ex_listed = [0] \<and>
   fst (dataframe [ex_listed, ex_listed] ex_loaded_core) = Inr (Some 2) \<and>
   heap_get (fst (snd (dataframe [ex_listed, ex_listed] ex_loaded_core))) 2 = Some ex_listed \<and>
   table_view [ListObj [1, 2]] ex_listed \<noteq> table_view [ListObj [1]] ex_listed"
  by (simp add: loaded_state_def ex_loaded_core_def heap_get_def df_type_def ex_listed_def
      ex_col_def dataframe_def method_copy_def alloc_def has_connector_def obj_refs_def
      table_view_def cell_view_def obj_get_def)

text \<open>
  Claim C2, amended. In a loaded state that owns the table \<open>t\<close> at \<open>r\<close>, a read of
  \<^verbatim>\<open>dataframe\<close> returns a reference \<open>r'\<close> to a new frame object (not \<open>r\<close>, not in the store
  before) with the labels and cells of \<open>t\<close>, and the owned frame is untouched. Whatever is
  written to the frame at \<open>r'\<close> afterwards, the owned frame still is \<open>t\<close>; unless the read
  unloaded a temporary load, the state is loaded as before and the next read again
  returns a new frame with the labels and cells of \<open>t\<close>. Cells that refer to Python
  objects refer to the same objects in every copy: what a later read shows is what the
  first one showed as long as no object that \<open>t\<close> refers to has been changed in place.
\<close>

theorem dataframe_read_is_copy:
  assumes "loaded_state h s r t"
  shows "(let r1 = dataframe h s; h1 = fst (snd r1); s1 = snd (snd r1) in
     \<exists>r'. fst r1 = Inr (Some r') \<and> r' \<noteq> r \<and> heap_get h r' = None \<and>
          heap_get h1 r' = Some t \<and> heap_get h1 r = Some t \<and>
          (\<forall>u. heap_get (heap_set h1 r' u) r = Some t \<and>
               (if has_connector s \<and> temporary_loaded s
                then fst (dataframe (heap_set h1 r' u) s1) = Inr None
                else loaded_state (heap_set h1 r' u) s1 r t \<and>
                     (\<exists>r''. fst (dataframe (heap_set h1 r' u) s1) = Inr (Some r'') \<and>
                            r'' \<noteq> r' \<and> r'' \<noteq> r \<and>
                            heap_get (fst (snd (dataframe (heap_set h1 r' u) s1))) r'' = Some t)))) \<and>
     (\<forall>os os'. (\<forall>i\<in>set (obj_refs t). obj_get os' i = obj_get os i) \<longrightarrow>
                table_view os' t = table_view os t)"
proof -
  from assms have ls: "df_loaded s" "df s = Some r" "heap_get h r = Some t"
      "engine s = df_type t" "df_type t \<noteq> None"
    by (simp_all add: loaded_state_def)
  have lt: "r < length h" using ls(3) by (rule heap_get_Some_less)
  let ?s1 = "if has_connector s \<and> temporary_loaded s then unload_connector s else s"
  have r1: "dataframe h s = (Inr (Some (length h)), h @ [t], ?s1)"
    using ls by (rule dataframe_loaded)
  have old: "heap_get (h @ [t]) r = Some t"
    using lt ls(3) by (simp add: heap_get_append_old)
  have fresh: "heap_get h (length h) = None"
    by (simp add: heap_get_def)
  have ne: "length h \<noteq> r" using lt by simp
  have mut: "heap_get (heap_set (h @ [t]) (length h) u) r = Some t" for u
    using old ne by (simp add: heap_set_other)
  have second: "if has_connector s \<and> temporary_loaded s
        then fst (dataframe (heap_set (h @ [t]) (length h) u) ?s1) = Inr None
        else loaded_state (heap_set (h @ [t]) (length h) u) ?s1 r t \<and>
             (\<exists>r''. fst (dataframe (heap_set (h @ [t]) (length h) u) ?s1) = Inr (Some r'') \<and>
                    r'' \<noteq> length h \<and> r'' \<noteq> r \<and>
                    heap_get (fst (snd (dataframe (heap_set (h @ [t]) (length h) u) ?s1))) r'' = Some t)"
    for u
  proof (cases "has_connector s \<and> temporary_loaded s")
    case True
    then show ?thesis
      by (simp add: dataframe_unloaded unload_connector_def)
  next
    case False
    have l2: "loaded_state (heap_set (h @ [t]) (length h) u) s r t"
      using ls mut by (simp add: loaded_state_def)
    then have "dataframe (heap_set (h @ [t]) (length h) u) s =
        (Inr (Some (Suc (length h))), heap_set (h @ [t]) (length h) u @ [t], s)"
      using dataframe_loaded[of s r "heap_set (h @ [t]) (length h) u" t] False
      by (auto simp: loaded_state_def)
    then show ?thesis
      using False l2 lt by (auto simp: heap_get_def nth_append)
  qed
  have reads: "let r1 = dataframe h s; h1 = fst (snd r1); s1 = snd (snd r1) in
     \<exists>r'. fst r1 = Inr (Some r') \<and> r' \<noteq> r \<and> heap_get h r' = None \<and>
          heap_get h1 r' = Some t \<and> heap_get h1 r = Some t \<and>
          (\<forall>u. heap_get (heap_set h1 r' u) r = Some t \<and>
               (if has_connector s \<and> temporary_loaded s
                then fst (dataframe (heap_set h1 r' u) s1) = Inr None
                else loaded_state (heap_set h1 r' u) s1 r t \<and>
                     (\<exists>r''. fst (dataframe (heap_set h1 r' u) s1) = Inr (Some r'') \<and>
                            r'' \<noteq> r' \<and> r'' \<noteq> r \<and>
                            heap_get (fst (snd (dataframe (heap_set h1 r' u) s1))) r'' = Some t)))"
    unfolding Let_def r1 using old fresh ne mut second by auto
  have views: "\<forall>os os'. (\<forall>i\<in>set (obj_refs t). obj_get os' i = obj_get os i) \<longrightarrow>
                table_view os' t = table_view os t"
    using table_view_unchanged by blast
  from reads views show ?thesis ..
qed

theorem dataframe_read_is_copy_witness:
  "loaded_state [ex_listed] ex_loaded_core 0 ex_listed \<and>
   fst (dataframe [ex_listed] ex_loaded_core) = Inr (Some 1) \<and>
   fst (dataframe (heap_set [ex_listed, ex_listed] 1 ex_modin) ex_loaded_core) = Inr (Some 2) \<and>
   heap_get (fst (snd (dataframe (heap_set [ex_listed, ex_listed] 1 ex_modin) ex_loaded_core))) 2
     = Some ex_listed \<and>
   obj_get [ListObj [1], ListObj [5]] 0 = obj_get [ListObj [1]] 0 \<and>
   table_view [ListObj [1], ListObj [5]] ex_listed = table_view [ListObj [1]] ex_listed"
  using dataframe_read_is_copy[of "[ex_listed]" ex_loaded_core 0 ex_listed]
  by (simp add: loaded_state_def ex_loaded_core_def heap_get_def heap_set_def df_type_def
      ex_listed_def dataframe_def method_copy_def alloc_def has_connector_def ex_col_def
      obj_refs_def table_view_def cell_view_def obj_get_def)

section \<open>Failed loads\<close>

text \<open>
  Claim C5, as stated, fails: the setter assigns \<^verbatim>\<open>_df\<close> before \<^verbatim>\<open>_load_engine\<close> checks the
  object. A core that owns a pandas frame and is assigned a modin frame under the pandas
  module raises \<open>EngineMismatch\<close> and then owns the modin frame.
\<close>

theorem failed_load_replaces_table:
  "dataframe_set ex_env [ex_pandas, ex_modin] ex_loaded_core (PyObj 1) =
     (Inl EngineMismatch, [ex_pandas, ex_modin], ex_loaded_core\<lparr>df := Some 1\<rparr>) \<and>
   owned [ex_pandas, ex_modin] ex_loaded_core = Some ex_pandas \<and>
   owned [ex_pandas, ex_modin] (ex_loaded_core\<lparr>df := Some 1\<rparr>) = Some ex_modin \<and>
   ex_loaded_core\<lparr>df := Some 1\<rparr> \<noteq> ex_loaded_core"
  by (simp add: dataframe_set_def validate_and_convert_dataframe_def load_engine_def owned_def
      heap_get_def df_type_def isinstance_DataFrame_def frame_class_def ex_env_def
      ex_modin_def ex_pandas_def ex_loaded_core_def)

lemma accepted_mk_frame [simp]: "accepted e (mk_frame e cols)"
  by (simp add: accepted_def mk_frame_def df_type_def isinstance_DataFrame_def frame_class_def
      split: pd_module.splits)

lemma import_from_file_accepted: "import_from_file e p = Inr t \<Longrightarrow> accepted e t"
  by (auto simp: import_from_file_def reader_result_def
      split: if_splits option.splits list.splits)

text \<open>
  Claim C5, amended. When the setter fails, the engine tag, the two load flags and the
  connector are what they were. When it fails with \<open>InvalidFileFormat\<close> or
  \<open>UnconvertibleInput\<close>, store and core are unchanged altogether. When it fails with
  \<open>UnrecognizedEngine\<close> or \<open>EngineMismatch\<close>, the value assigned was an object, \<^verbatim>\<open>_df\<close>
  now refers to that rejected object, and nothing else changed.
\<close>

theorem failed_load_frame:
  assumes "dataframe_set e h s v = (Inl err, h', s')"
  shows "engine s' = engine s \<and> df_loaded s' = df_loaded s \<and>
     temporary_loaded s' = temporary_loaded s \<and> connector s' = connector s \<and>
     (err = InvalidFileFormat \<or> err = UnconvertibleInput \<longrightarrow> s' = s \<and> h' = h) \<and>
     (err = UnrecognizedEngine \<or> err = EngineMismatch \<longrightarrow>
        h' = h \<and> (\<exists>r. v = PyObj r \<and> s' = s\<lparr>df := Some r\<rparr> \<and>
                  (\<forall>t. heap_get h r = Some t \<longrightarrow> \<not> accepted e t)))"
proof (cases v)
  case PyNone
  with assms show ?thesis
    by (simp add: dataframe_set_def validate_and_convert_dataframe_def)
next
  case (PyStr p)
  show ?thesis
  proof (cases "import_from_file e p")
    case (Inl a)
    with assms PyStr have "err = a" "s' = s" "h' = h"
      by (simp_all add: dataframe_set_def validate_and_convert_dataframe_def)
    moreover have "a \<noteq> UnrecognizedEngine" "a \<noteq> EngineMismatch" "a \<noteq> UnconvertibleInput"
      using Inl
      by (auto simp: import_from_file_def reader_result_def
          split: if_splits option.splits list.splits)
    ultimately show ?thesis by simp
  next
    case (Inr t)
    then have "accepted e t" by (rule import_from_file_accepted)
    with assms PyStr Inr show ?thesis
      by (simp add: dataframe_set_def validate_and_convert_dataframe_def alloc_def
          load_engine_accepted[where t = t] owned_def)
  qed
next
  case (PyData d)
  with assms show ?thesis
    by (auto simp: dataframe_set_def validate_and_convert_dataframe_def alloc_def
        load_engine_accepted[where t = "mk_frame e cols" for cols] owned_def
        split: option.splits)
next
  case (PyObj r)
  with assms show ?thesis
    by (auto simp: dataframe_set_obj load_engine_def owned_def accepted_def
        split: sum.splits option.splits if_splits)
qed

theorem failed_load_frame_witness:
  "dataframe_set ex_env [] new_core (PyStr ''notes.txt'') = (Inl InvalidFileFormat, [], new_core) \<and>
   dataframe_set ex_env [ex_modin] new_core (PyObj 0) =
     (Inl EngineMismatch, [ex_modin], new_core\<lparr>df := Some 0\<rparr>) \<and>
   engine (new_core\<lparr>df := Some 0\<rparr>) = engine new_core"
  using failed_load_frame[of ex_env "[]" new_core "PyStr ''notes.txt''" InvalidFileFormat "[]" new_core]
        failed_load_frame[of ex_env "[ex_modin]" new_core "PyObj 0" EngineMismatch "[ex_modin]"
          "new_core\<lparr>df := Some 0\<rparr>"]
  by (simp add: dataframe_set_def validate_and_convert_dataframe_def import_from_file_def
      endswith_def startswith_def load_engine_def owned_def heap_get_def df_type_def
      isinstance_DataFrame_def frame_class_def ex_env_def ex_modin_def new_core_def)

section \<open>The sample head\<close>

text \<open>
  Claim C3: what \<^verbatim>\<open>_truncate_head_columns\<close> does to a pandas frame with one text column of
  two rows, 40 times \<^verbatim>\<open>a\<close> and 40 times \<^verbatim>\<open>b\<close>. Both rows become the same string, the
  text of the whole sliced Series followed by three dots, whatever that text is; the
  result is not the column of the two values cut to 22 characters plus three dots.
\<close>

theorem truncation_assigns_series_text:
  "truncate_head_columns e ex_long 25 =
     Inr (ex_long\<lparr>columns :=
       [ex_long_col\<lparr>col_cells :=
          [StrCell (series_str e (str_slice 22 ex_long_col) @ ''...''),
           StrCell (series_str e (str_slice 22 ex_long_col) @ ''...'')]\<rparr>]\<rparr>) \<and>
   truncate_head_columns e ex_long 25 \<noteq>
     Inr (ex_long\<lparr>columns :=
       [ex_long_col\<lparr>col_cells :=
          [StrCell (replicate 22 CHR ''a'' @ ''...''),
           StrCell (replicate 22 CHR ''b'' @ ''...'')]\<rparr>]\<rparr>)"
proof -
  have run: "truncate_head_columns e ex_long 25 =
     Inr (ex_long\<lparr>columns :=
       [ex_long_col\<lparr>col_cells :=
          [StrCell (series_str e (str_slice 22 ex_long_col) @ ''...''),
           StrCell (series_str e (str_slice 22 ex_long_col) @ ''...'')]\<rparr>]\<rparr>)"
    by (simp add: truncate_head_columns_def df_type_def ex_long_def ex_long_col_def
        long_str_def assign_scalar_def)
  have "replicate 22 CHR ''a'' @ ''...'' \<noteq> replicate 22 CHR ''b'' @ ''...''"
    by (simp add: numeral_eq_Suc)
  then have "ex_long_col\<lparr>col_cells :=
          [StrCell (series_str e (str_slice 22 ex_long_col) @ ''...''),
           StrCell (series_str e (str_slice 22 ex_long_col) @ ''...'')]\<rparr> \<noteq>
        ex_long_col\<lparr>col_cells :=
          [StrCell (replicate 22 CHR ''a'' @ ''...''),
           StrCell (replicate 22 CHR ''b'' @ ''...'')]\<rparr>"
    by (auto dest!: arg_cong[where f = col_cells])
  then show ?thesis
    unfolding run by (auto simp: ex_long_def)
qed

text \<open>
  Claim C4, amended. With a custom head, \<^verbatim>\<open>_get_sample_head\<close> reads the stored CSV text
  back into a frame and uses it in place of the connector's head or the table's first
  rows; store and object are left as they were. The frame then takes the same path as
  any other head: the sampler with the row budget (0 under privacy, else 3), and, unless
  privacy is enforced, \<^verbatim>\<open>_truncate_head_columns\<close>.
\<close>

theorem custom_head_pipeline:
  "custom_head sdf = Some csv \<Longrightarrow>
   get_sample_head e h sdf =
     (case read_csv_buffer e csv of
        None \<Rightarrow> (Inl ExternalError, h, sdf)
      | Some cols \<Rightarrow>
          (if enforce_privacy sdf
           then (Inr (Some (sample e (mk_frame e cols) 0)), h, sdf)
           else (case truncate_head_columns e (sample e (mk_frame e cols) 3) 25 of
                   Inl err \<Rightarrow> (Inl err, h, sdf)
                 | Inr t \<Rightarrow> (Inr (Some t), h, sdf))))"
  by (simp add: get_sample_head_def base_head_def rows_to_display_def split: option.splits)

theorem custom_head_pipeline_witness:
  "custom_head (set_custom_head cx_env ex_sdf ex_long) = Some (to_csv cx_env ex_long) \<and>
   get_sample_head cx_env [] (set_custom_head cx_env ex_sdf ex_long) =
     (Inr (Some (ex_long\<lparr>columns :=
        [ex_long_col\<lparr>col_cells := [StrCell ''Series...'', StrCell ''Series...'']\<rparr>]\<rparr>)),
      [], set_custom_head cx_env ex_sdf ex_long)"
  using custom_head_pipeline[of "set_custom_head cx_env ex_sdf ex_long" "to_csv cx_env ex_long" cx_env "[]"]
  by (simp add: set_custom_head_def cx_env_def ex_env_def ex_sdf_def mk_frame_def frame_class_def
      ex_long_def str_slice_def ex_long_col_def truncate_head_columns_def df_type_def
      long_str_def assign_scalar_def)

text \<open>
  Claim C4, as stated, fails. With a CSV round trip that gives the custom head back and a
  sampler that returns its input, the head returned for the custom head \<open>ex_long\<close> is not
  \<open>ex_long\<close>: the truncation changed it.
\<close>

theorem custom_head_not_verbatim:
  "custom_head (set_custom_head cx_env ex_sdf ex_long) \<noteq> None \<and>
   mk_frame cx_env (the (read_csv_buffer cx_env (to_csv cx_env ex_long))) = ex_long \<and>
   sample cx_env ex_long 3 = ex_long \<and>
   fst (get_sample_head cx_env [] (set_custom_head cx_env ex_sdf ex_long)) \<noteq> Inr (Some ex_long)"
  by (simp add: get_sample_head_def base_head_def rows_to_display_def set_custom_head_def
      cx_env_def ex_env_def ex_sdf_def mk_frame_def frame_class_def ex_long_def ex_long_col_def
      truncate_head_columns_def df_type_def long_str_def assign_scalar_def str_slice_def)

lemma no_rows_head0 [simp]: "no_rows (head_rows 0 t)"
  by (simp add: no_rows_def head_rows_def list_all_iff)

text \<open>
  Claim C7. Under privacy enforcement the row budget is 0. For a loaded table without a
  custom head, \<^verbatim>\<open>_get_sample_head\<close> returns what the sampler makes of the first 0 rows,
  with no truncation, and that has no rows when the sampler, given budget 0, makes no
  rows out of none. Whatever the head comes from, the result is an output of the sampler
  at budget 0, untruncated; it has no rows when the sampler honours a budget of 0.
\<close>

theorem privacy_head_has_no_rows:
  assumes "enforce_privacy sdf"
  shows "(custom_head sdf = None \<and> loaded_state h (core sdf) r t \<longrightarrow>
            fst (get_sample_head e h sdf) = Inr (Some (sample e (head_rows 0 t) 0)) \<and>
            no_rows (head_rows 0 t) \<and>
            ((\<forall>x. no_rows x \<longrightarrow> no_rows (sample e x 0)) \<longrightarrow>
               no_rows (sample e (head_rows 0 t) 0))) \<and>
         (\<forall>t'. fst (get_sample_head e h sdf) = Inr (Some t') \<longrightarrow>
               (\<exists>base. t' = sample e base 0) \<and> ((\<forall>x. no_rows (sample e x 0)) \<longrightarrow> no_rows t'))"
proof (intro conjI impI allI)
  assume a: "custom_head sdf = None \<and> loaded_state h (core sdf) r t"
  then have ls: "df_loaded (core sdf)" "df (core sdf) = Some r" "heap_get h r = Some t"
      "engine (core sdf) = df_type t" "df_type t \<noteq> None"
    by (simp_all add: loaded_state_def)
  have rd: "dataframe h (core sdf) =
      (Inr (Some (length h)), h @ [t],
       if has_connector (core sdf) \<and> temporary_loaded (core sdf)
       then unload_connector (core sdf) else core sdf)"
    using ls by (rule dataframe_loaded)
  show "fst (get_sample_head e h sdf) = Inr (Some (sample e (head_rows 0 t) 0))"
    using a assms ls(1) rd
    by (simp add: get_sample_head_def base_head_def rows_to_display_def)
next
  show "no_rows (head_rows 0 t)" by simp
next
  assume "\<forall>x. no_rows x \<longrightarrow> no_rows (sample e x 0)"
  then show "no_rows (sample e (head_rows 0 t) 0)" by simp
next
  fix t' assume r: "fst (get_sample_head e h sdf) = Inr (Some t')"
  then show b: "\<exists>base. t' = sample e base 0"
    using assms
    by (auto simp: get_sample_head_def rows_to_display_def
        split: prod.splits sum.splits option.splits)
  assume "\<forall>x. no_rows (sample e x 0)"
  with b show "no_rows t'" by auto
qed

theorem privacy_head_has_no_rows_witness:
  "enforce_privacy (ex_sdf\<lparr>enforce_privacy := True\<rparr>) \<and>
   custom_head (ex_sdf\<lparr>enforce_privacy := True\<rparr>) = None \<and>
   loaded_state [ex_pandas] (core (ex_sdf\<lparr>enforce_privacy := True\<rparr>)) 0 ex_pandas \<and>
   (\<forall>x. no_rows (sample ex_env x 0)) \<and>
   fst (get_sample_head ex_env [ex_pandas] (ex_sdf\<lparr>enforce_privacy := True\<rparr>)) =
     Inr (Some (sample ex_env (head_rows 0 ex_pandas) 0)) \<and>
   no_rows (sample ex_env (head_rows 0 ex_pandas) 0)"
  using privacy_head_has_no_rows[of "ex_sdf\<lparr>enforce_privacy := True\<rparr>" "[ex_pandas]" 0 ex_pandas ex_env]
  by (simp add: ex_sdf_def loaded_state_def ex_loaded_core_def heap_get_def df_type_def
      ex_pandas_def ex_env_def)

section \<open>The column hash\<close>

lemma utf8_examples:
  "encode_utf8 [97, 233] = Some [97, 195, 169]"
  "encode_utf8 [8364] = Some [226, 130, 172]"
  "encode_utf8 [128512] = Some [240, 159, 152, 128]"
  "encode_utf8 [55296] = None"
  by (simp_all add: utf8_char_def)

lemma join_labels_strs: "join_labels (map StrLabel names) = Some (concat names)"
  by (induction names) simp_all

lemma column_hash_loaded:
  assumes "loaded_state h (core sdf) r t"
  shows "fst (column_hash e h sdf) =
     (case join_labels (map col_name (columns t)) of
        None \<Rightarrow> Inl TypeError
      | Some joined \<Rightarrow>
          (case encode_utf8 joined of
             None \<Rightarrow> Inl UnicodeEncodeError
           | Some bs \<Rightarrow> Inr (sha256_hexdigest e bs)))"
proof -
  from assms have ls: "df_loaded (core sdf)" "df (core sdf) = Some r" "heap_get h r = Some t"
      "engine (core sdf) = df_type t" "df_type t \<noteq> None"
    by (simp_all add: loaded_state_def)
  have "dataframe h (core sdf) =
      (Inr (Some (length h)), h @ [t],
       if has_connector (core sdf) \<and> temporary_loaded (core sdf)
       then unload_connector (core sdf) else core sdf)"
    using ls by (rule dataframe_loaded)
  then show ?thesis
    using ls(1) by (simp add: column_hash_def columns_str_def split: option.splits)
qed

text \<open>
  Claim C6, as stated, fails, for every digest function. The tables with the columns
  \<^verbatim>\<open>ab\<close>, \<^verbatim>\<open>c\<close> and \<^verbatim>\<open>a\<close>, \<^verbatim>\<open>bc\<close> have the same hash (two columns renamed), and so have
  the table with the column \<^verbatim>\<open>a\<close> and the one with a second column whose name is the
  empty string (a column added, or removed). And a loaded table does not always get a
  digest: with the integer labels 0 and 1 the join raises \<^verbatim>\<open>TypeError\<close>.
\<close>

theorem column_hash_ignores_name_boundaries:
  "\<forall>e. map col_name (columns (ex_named [''ab'', ''c''] [IntCell 1])) \<noteq>
         map col_name (columns (ex_named [''a'', ''bc''] [IntCell 1])) \<and>
       fst (column_hash e [ex_named [''ab'', ''c''] [IntCell 1]] ex_sdf) =
       fst (column_hash e [ex_named [''a'', ''bc''] [IntCell 1]] ex_sdf) \<and>
       fst (column_hash e [ex_named [''ab'', ''c''] [IntCell 1]] ex_sdf) =
         Inr (sha256_hexdigest e [97, 98, 99]) \<and>
       map col_name (columns (ex_named [''a''] [IntCell 1])) \<noteq>
         map col_name (columns (ex_named [''a'', ''''] [IntCell 1])) \<and>
       fst (column_hash e [ex_named [''a''] [IntCell 1]] ex_sdf) =
       fst (column_hash e [ex_named [''a'', ''''] [IntCell 1]] ex_sdf) \<and>
       loaded_state [ex_int_labels] (core ex_sdf) 0 ex_int_labels \<and>
       fst (column_hash e [ex_int_labels] ex_sdf) = Inl TypeError"
  by (simp add: column_hash_def dataframe_def method_copy_def alloc_def heap_get_def
      ex_sdf_def ex_loaded_core_def ex_named_def ex_col_def has_connector_def columns_str_def
      str_label_def utf8_char_def ex_int_labels_def loaded_state_def df_type_def)

text \<open>
  Claim C6, amended. For a loaded table whose column labels are all strings, with names
  that UTF-8 can encode, \<^verbatim>\<open>column_hash\<close> returns the SHA-256 hex digest of the UTF-8
  encoding of the names joined in their order without a separator. Two loaded tables with
  the same labels in the same order get the same result, whatever their rows; so do any
  two with string labels whose joined names are the same string.
\<close>

theorem column_hash_of_names:
  "(loaded_state h (core sdf) r t \<and> map col_name (columns t) = map StrLabel names \<and>
    encode_utf8 (concat names) = Some bs \<longrightarrow>
      fst (column_hash e h sdf) = Inr (sha256_hexdigest e bs)) \<and>
   (loaded_state h (core sdf) r t \<and> loaded_state h' (core sdf') r' t' \<and>
    map col_name (columns t) = map col_name (columns t') \<longrightarrow>
      fst (column_hash e h sdf) = fst (column_hash e h' sdf')) \<and>
   (loaded_state h (core sdf) r t \<and> loaded_state h' (core sdf') r' t' \<and>
    map col_name (columns t) = map StrLabel names \<and>
    map col_name (columns t') = map StrLabel names' \<and> concat names = concat names' \<longrightarrow>
      fst (column_hash e h sdf) = fst (column_hash e h' sdf'))"
  by (auto simp: column_hash_loaded join_labels_strs)

theorem column_hash_of_names_witness:
  "loaded_state [ex_named [''a'', ''b''] [IntCell 1]] (core ex_sdf) 0 (ex_named [''a'', ''b''] [IntCell 1]) \<and>
   loaded_state [ex_named [''a'', ''b''] [IntCell 2, IntCell 3]] (core ex_sdf) 0
     (ex_named [''a'', ''b''] [IntCell 2, IntCell 3]) \<and>
   map col_name (columns (ex_named [''a'', ''b''] [IntCell 1])) = map StrLabel [[97], [98]] \<and>
   encode_utf8 (concat [[97], [98]]) = Some [97, 98] \<and>
   fst (column_hash ex_env [ex_named [''a'', ''b''] [IntCell 1]] ex_sdf) =
     Inr (sha256_hexdigest ex_env [97, 98]) \<and>
   fst (column_hash ex_env [ex_named [''a'', ''b''] [IntCell 1]] ex_sdf) =
     fst (column_hash ex_env [ex_named [''a'', ''b''] [IntCell 2, IntCell 3]] ex_sdf)"
  using column_hash_of_names
          [of "[ex_named [''a'', ''b''] [IntCell 1]]" ex_sdf 0 "ex_named [''a'', ''b''] [IntCell 1]"
              "[[97], [98]]" "[97, 98]" ex_env
              "[ex_named [''a'', ''b''] [IntCell 2, IntCell 3]]" ex_sdf 0
              "ex_named [''a'', ''b''] [IntCell 2, IntCell 3]" "[[97], [98]]"]
  by (simp add: loaded_state_def ex_sdf_def ex_loaded_core_def heap_get_def ex_named_def
      df_type_def ex_col_def str_label_def utf8_char_def column_hash_def dataframe_def
      method_copy_def alloc_def has_connector_def columns_str_def)

end
